theory Spec2Isabelle
  imports
    Complex_Main
    "HOL-Library.Multiset"
    "HOL-Library.Char_ord"
    "HOL-Library.List_Lexorder"
begin

section \<open>Journal monitor: article normalisation, sync merge, filtering and triage\<close>

text \<open>
  A shallow embedding of the article pipeline of the journal monitor plugin:
  the OpenAlex adapter helpers of \<^verbatim>\<open>api.ts\<close>, the filter and the filter hash of
  \<^verbatim>\<open>utils.ts\<close>, the sync loop of the plugin class (\<^verbatim>\<open>fetchArticles\<close>) and the
  save and skip actions of the browse view.

  Conventions. A JavaScript string is a \<^typ>\<open>string\<close>, one \<^typ>\<open>char\<close> per code unit;
  case mapping is modelled on the ASCII letters. An optional field \<^verbatim>\<open>f?: T\<close> is a
  \<^typ>\<open>'a option\<close> with \<^const>\<open>None\<close> for \<^verbatim>\<open>undefined\<close>. A \<^verbatim>\<open>Record<string, T>\<close> used
  as a dictionary is a map \<open>string \<rightharpoonup> T\<close>, or an association list in the order of
  \<^verbatim>\<open>Object.entries\<close> where the code iterates over it; keys are words and DOIs, never
  the inherited property names of \<^verbatim>\<open>Object.prototype\<close>. Counters and positions are
  integers. A rejected promise or a thrown exception is a value \<open>Inl e\<close>.
\<close>

subsection \<open>Array and string primitives\<close>

text \<open>\<^verbatim>\<open>Array.prototype.join(sep)\<close> on an array of strings.\<close>

fun join :: "string \<Rightarrow> string list \<Rightarrow> string" where
  "join sep [] = []"
| "join sep [x] = x"
| "join sep (x # y # ys) = x @ sep @ join sep (y # ys)"

subsection \<open>Abstract reconstruction (\<^verbatim>\<open>api.ts\<close>)\<close>

text \<open>
  \<^verbatim>\<open>
  function reconstructAbstract(invertedIndex: Record<string, number[]> | undefined) {
    if (!invertedIndex) return undefined;
    const words: [string, number][] = [];
    for (const [word, positions] of Object.entries(invertedIndex)) {
      for (const pos of positions) { words.push([word, pos]); }
    }
    words.sort((a, b) => a[1] - b[1]);
    return words.map(w => w[0]).join(' ');
  }
  \<close>
  The index is given as the list of its entries. An object is always truthy, so the
  guard fires for \<^verbatim>\<open>undefined\<close> only. \<^verbatim>\<open>Array.prototype.sort\<close> is stable, as is
  \<^const>\<open>sort_key\<close>.
\<close>

type_synonym inverted_index = "(string \<times> int list) list"

definition flatten_index :: "inverted_index \<Rightarrow> (string \<times> int) list" where
  "flatten_index idx = concat (map (\<lambda>(word, positions). map (\<lambda>pos. (word, pos)) positions) idx)"

definition reconstructAbstract :: "inverted_index option \<Rightarrow> string option" where
  "reconstructAbstract invertedIndex =
     (case invertedIndex of
        None \<Rightarrow> None
      | Some idx \<Rightarrow>
          (let words = flatten_index idx;
               sorted_words = sort_key snd words
           in Some (join '' '' (map fst sorted_words))))"

subsection \<open>Author order (\<^verbatim>\<open>api.ts\<close>)\<close>

text \<open>
  \<^verbatim>\<open>
  function formatOpenAlexAuthors(authorships: OpenAlexWork['authorships']): string[] {
    return authorships
      .sort((a, b) => {
        const order = { first: 0, middle: 1, last: 2 };
        return (order[a.author_position as keyof typeof order] || 1) -
               (order[b.author_position as keyof typeof order] || 1);
      })
      .map(a => a.author.display_name);
  }
  \<close>
  \<open>order_lookup\<close> is the property read \<^verbatim>\<open>order[p]\<close> and \<open>or_number\<close> is \<^verbatim>\<open>||\<close> on
  a number that may be \<^verbatim>\<open>undefined\<close>: the left operand is taken when it is truthy, and
  \<open>0\<close> is not. The comparator is the difference of two ranks, so the stable sort of
  the array is \<^const>\<open>sort_key\<close> on the rank. The sort is in place; the model is of the
  returned names.
\<close>

record Authorship =
  author_display_name :: string
  author_position :: string

definition order_lookup :: "string \<Rightarrow> int option" where
  "order_lookup p =
     (if p = ''first'' then Some 0
      else if p = ''middle'' then Some 1
      else if p = ''last'' then Some 2
      else None)"

definition or_number :: "int option \<Rightarrow> int \<Rightarrow> int" where
  "or_number v d = (case v of None \<Rightarrow> d | Some n \<Rightarrow> if n = 0 then d else n)"

definition author_rank :: "Authorship \<Rightarrow> int" where
  "author_rank a = or_number (order_lookup (author_position a)) 1"

definition formatOpenAlexAuthors :: "Authorship list \<Rightarrow> string list" where
  "formatOpenAlexAuthors authorships = map author_display_name (sort_key author_rank authorships)"

text \<open>
  The order the tags are written for: \<open>first\<close> before \<open>middle\<close> before \<open>last\<close>,
  an unknown tag counted as \<open>middle\<close>.
\<close>

definition tag_rank :: "string \<Rightarrow> int" where
  "tag_rank p = (case order_lookup p of None \<Rightarrow> 1 | Some n \<Rightarrow> n)"

subsection \<open>The canonical article and the OpenAlex adapter (\<^verbatim>\<open>types.ts\<close>, \<^verbatim>\<open>api.ts\<close>)\<close>

datatype ArticleState = Unseen | Viewed | Saved | Skipped

record Article =
  doi :: string
  title :: string
  authors :: "string list"
  journal :: string
  journalIssn :: string
  volume :: "string option"
  issue :: "string option"
  pages :: "string option"
  date :: string
  year :: int
  abstract :: "string option"
  article_keywords :: "string list option"
  url :: string
  openAccessUrl :: "string option"
  state :: ArticleState
  fetchedAt :: string
  viewedAt :: "string option"
  savedAt :: "string option"
  savedPath :: "string option"

text \<open>
  A scored concept or topic of a work. Scores are compared with the literal \<open>0.3\<close>;
  they are modelled as exact numbers, and every double above the double \<open>0.3\<close> is
  above three tenths and conversely.
\<close>

record Scored =
  display_name :: string
  score :: real

record Biblio =
  biblio_volume :: "string option"
  biblio_issue :: "string option"
  first_page :: "string option"
  last_page :: "string option"

text \<open>
  The fields of a work that the conversion reads. Nested single-field objects are
  flattened: an authorship carries \<^verbatim>\<open>author.display_name\<close> directly, \<open>work_keywords\<close> is
  the list of the \<^verbatim>\<open>keyword\<close> strings of \<^verbatim>\<open>work.keywords\<close>, and \<open>oa_url\<close> is
  \<^verbatim>\<open>work.open_access?.oa_url\<close>.
\<close>

record OpenAlexWork =
  work_doi :: "string option"
  work_title :: string
  work_display_name :: string
  publication_date :: string
  publication_year :: int
  authorships :: "Authorship list"
  abstract_inverted_index :: "inverted_index option"
  work_keywords :: "string list option"
  biblio :: "Biblio option"
  oa_url :: "string option"
  concepts :: "Scored list option"
  topics :: "Scored list option"

text \<open>The clock readings a conversion takes: today's date, this year, the current instant.\<close>

record Clock =
  today :: string
  thisYear :: int
  nowISO :: string

text \<open>\<^verbatim>\<open>a || b\<close> on strings (the empty string is falsy) and on optional strings.\<close>

definition or_string :: "string \<Rightarrow> string \<Rightarrow> string" where
  "or_string a b = (if a \<noteq> [] then a else b)"

definition truthy :: "string option \<Rightarrow> bool" where
  "truthy v = (case v of None \<Rightarrow> False | Some s \<Rightarrow> s \<noteq> [])"

text \<open>\<^verbatim>\<open>String.prototype.startsWith\<close> and \<^verbatim>\<open>s.replace(pat, rep)\<close> for a string pattern:
  the first occurrence only.\<close>

fun startsWith :: "string \<Rightarrow> string \<Rightarrow> bool" where
  "startsWith s [] = True"
| "startsWith [] (p # ps) = False"
| "startsWith (c # cs) (p # ps) = (c = p \<and> startsWith cs ps)"

fun replace_first :: "string \<Rightarrow> string \<Rightarrow> string \<Rightarrow> string" where
  "replace_first pat rep [] = (if pat = [] then rep else [])"
| "replace_first pat rep (c # cs) =
     (if startsWith (c # cs) pat then rep @ drop (length pat) (c # cs)
      else c # replace_first pat rep cs)"

text \<open>
  \<^verbatim>\<open>
  const keywords = work.concepts
      ?.filter(c => c.score > 0.3)?.slice(0, 8)?.map(c => c.display_name)
    || work.topics
      ?.filter(t => t.score > 0.3)?.slice(0, 8)?.map(t => t.display_name)
    || work.keywords?.map(k => k.keyword)
    || [];
  \<close>
  An optional chain yields \<^verbatim>\<open>undefined\<close> only when the field is absent; an array, empty
  or not, is truthy, so \<^verbatim>\<open>||\<close> moves on only for an absent field.
\<close>

definition top_names :: "Scored list \<Rightarrow> string list" where
  "top_names xs = map display_name (take 8 (filter (\<lambda>c. score c > 0.3) xs))"

definition extractKeywords :: "OpenAlexWork \<Rightarrow> string list" where
  "extractKeywords work =
     (case map_option top_names (concepts work) of
        Some ks \<Rightarrow> ks
      | None \<Rightarrow>
          (case map_option top_names (topics work) of
             Some ks \<Rightarrow> ks
           | None \<Rightarrow>
               (case work_keywords work of
                  Some ks \<Rightarrow> ks
                | None \<Rightarrow> [])))"

text \<open>
  \<^verbatim>\<open>
  function openAlexToArticle(work, journalName, journalIssn): Article | null {
    if (!work.doi) return null;
    const doi = work.doi.replace('https://doi.org/', '');
    const keywords = ...;
    return { doi, title: work.display_name || work.title || 'Untitled',
      authors: formatOpenAlexAuthors(work.authorships || []),
      journal: journalName, journalIssn,
      volume: work.biblio?.volume, issue: work.biblio?.issue,
      pages: work.biblio?.first_page && work.biblio?.last_page
        ? `${work.biblio.first_page}-${work.biblio.last_page}` : work.biblio?.first_page,
      date: work.publication_date || new Date().toISOString().split('T')[0],
      year: work.publication_year || new Date().getFullYear(),
      abstract: reconstructAbstract(work.abstract_inverted_index),
      keywords, url: `https://doi.org/${doi}`, openAccessUrl: work.open_access?.oa_url,
      state: 'unseen', fetchedAt: new Date().toISOString() };
  }
  \<close>
\<close>

definition work_pages :: "Biblio option \<Rightarrow> string option" where
  "work_pages b =
     (case b of
        None \<Rightarrow> None
      | Some bb \<Rightarrow>
          (if truthy (first_page bb) \<and> truthy (last_page bb)
           then Some (the (first_page bb) @ ''-'' @ the (last_page bb))
           else first_page bb))"

definition openAlexToArticle :: "Clock \<Rightarrow> OpenAlexWork \<Rightarrow> string \<Rightarrow> string \<Rightarrow> Article option" where
  "openAlexToArticle clock work journalName issn =
     (if \<not> truthy (work_doi work) then None
      else
        let d = replace_first ''https://doi.org/'' '''' (the (work_doi work))
        in Some \<lparr> doi = d,
                  title = or_string (work_display_name work) (or_string (work_title work) ''Untitled''),
                  authors = formatOpenAlexAuthors (authorships work),
                  journal = journalName,
                  journalIssn = issn,
                  volume = Option.bind (biblio work) biblio_volume,
                  issue = Option.bind (biblio work) biblio_issue,
                  pages = work_pages (biblio work),
                  date = or_string (publication_date work) (today clock),
                  year = (if publication_year work \<noteq> 0 then publication_year work else thisYear clock),
                  abstract = reconstructAbstract (abstract_inverted_index work),
                  article_keywords = Some (extractKeywords work),
                  url = ''https://doi.org/'' @ d,
                  openAccessUrl = oa_url work,
                  state = Unseen,
                  fetchedAt = nowISO clock,
                  viewedAt = None,
                  savedAt = None,
                  savedPath = None \<rparr>)"

text \<open>
  The keyword preference as the specification words it: the names of the concepts above
  \<open>0.3\<close> where there are any, else those of the topics above \<open>0.3\<close> where there are any,
  else the raw keyword list, else nothing.
\<close>

definition spec_keywords :: "OpenAlexWork \<Rightarrow> string list" where
  "spec_keywords work =
     (let cs = top_names (case concepts work of None \<Rightarrow> [] | Some xs \<Rightarrow> xs);
          ts = top_names (case topics work of None \<Rightarrow> [] | Some xs \<Rightarrow> xs);
          ks = (case work_keywords work of None \<Rightarrow> [] | Some xs \<Rightarrow> xs)
      in if cs \<noteq> [] then cs else if ts \<noteq> [] then ts else ks)"

subsection \<open>Settings and persisted data (\<^verbatim>\<open>types.ts\<close>)\<close>

record JournalConfig =
  name :: string
  issn :: string
  issnElectronic :: "string option"
  publisher :: string
  enabled :: bool
  color :: "string option"

datatype DateRange = Day | Week | Month | ThreeMonths | Custom

datatype ShowState = ShowUnseen | ShowAll | ShowViewed | ShowSaved | ShowSkipped

datatype SortBy = DateDesc | DateAsc | ByJournal

record FilterConfig =
  dateRange :: DateRange
  customDateFrom :: "string option"
  customDateTo :: "string option"
  filter_journals :: "string list"
  filter_keywords :: "string list"
  searchInAbstracts :: bool
  showState :: ShowState
  sortBy :: SortBy


fun showState_name :: "ShowState \<Rightarrow> string" where
  "showState_name ShowUnseen = ''unseen''"
| "showState_name ShowAll = ''all''"
| "showState_name ShowViewed = ''viewed''"
| "showState_name ShowSaved = ''saved''"
| "showState_name ShowSkipped = ''skipped''"

fun dateRange_name :: "DateRange \<Rightarrow> string" where
  "dateRange_name Day = ''day''"
| "dateRange_name Week = ''week''"
| "dateRange_name Month = ''month''"
| "dateRange_name ThreeMonths = ''3months''"
| "dateRange_name Custom = ''custom''"

fun sortBy_name :: "SortBy \<Rightarrow> string" where
  "sortBy_name DateDesc = ''date-desc''"
| "sortBy_name DateAsc = ''date-asc''"
| "sortBy_name ByJournal = ''journal''"

subsection \<open>Filtering (\<^verbatim>\<open>utils.ts\<close>)\<close>




text \<open>
  \<^verbatim>\<open>Array.prototype.sort(cmp)\<close>: a stable sort; an element goes before the first
  element it does not compare greater than.
\<close>

fun insort_cmp :: "('a \<Rightarrow> 'a \<Rightarrow> int) \<Rightarrow> 'a \<Rightarrow> 'a list \<Rightarrow> 'a list" where
  "insort_cmp cmp x [] = [x]"
| "insort_cmp cmp x (y # ys) =
     (if cmp x y \<le> 0 then x # y # ys else y # insort_cmp cmp x ys)"

definition array_sort :: "('a \<Rightarrow> 'a \<Rightarrow> int) \<Rightarrow> 'a list \<Rightarrow> 'a list" where
  "array_sort cmp xs = foldr (insort_cmp cmp) xs []"




subsection \<open>The filter hash (\<^verbatim>\<open>utils.ts\<close>)\<close>

text \<open>
  \<^verbatim>\<open>JSON.stringify\<close> on the shapes the hash serialises: strings, arrays of strings and an
  object whose members with an \<^verbatim>\<open>undefined\<close> value are left out.
\<close>

definition hex_digit :: "nat \<Rightarrow> char" where
  "hex_digit n = ''0123456789abcdef'' ! n"

definition json_escape_char :: "char \<Rightarrow> string" where
  "json_escape_char c =
     (if c = CHR 0x22 then [CHR 0x5C, CHR 0x22]
      else if c = CHR 0x5C then [CHR 0x5C, CHR 0x5C]
      else if c = CHR 0x08 then [CHR 0x5C, CHR ''b'']
      else if c = CHR 0x0C then [CHR 0x5C, CHR ''f'']
      else if c = CHR 0x0A then [CHR 0x5C, CHR ''n'']
      else if c = CHR 0x0D then [CHR 0x5C, CHR ''r'']
      else if c = CHR 0x09 then [CHR 0x5C, CHR ''t'']
      else if of_char c < (32::nat)
        then [CHR 0x5C, CHR ''u'', CHR ''0'', CHR ''0'',
              hex_digit (of_char c div 16), hex_digit (of_char c mod 16)]
      else [c])"

definition json_string :: "string \<Rightarrow> string" where
  "json_string s = CHR 0x22 # concat (map json_escape_char s) @ [CHR 0x22]"

definition json_array :: "string list \<Rightarrow> string" where
  "json_array xs = ''['' @ join '','' (map json_string xs) @ '']''"

definition json_object :: "(string \<times> string option) list \<Rightarrow> string" where
  "json_object members =
     ''{'' @
     join '',''
       (List.map_filter (\<lambda>(k, v). map_option (\<lambda>j. json_string k @ '':'' @ j) v) members) @
     ''}''"

text \<open>
  \<^verbatim>\<open>
  export function hashFilterConfig(filter: FilterConfig): string {
    const str = JSON.stringify({
      dateRange: filter.dateRange,
      customDateFrom: filter.customDateFrom, customDateTo: filter.customDateTo,
      journals: filter.journals.sort(), keywords: filter.keywords.sort(),
      showState: filter.showState, sortBy: filter.sortBy,
    });
    let hash = 0;
    for (let i = 0; i < str.length; i++) {
      const char = str.charCodeAt(i);
      hash = ((hash << 5) - hash) + char;
      hash = hash & hash;
    }
    return hash.toString(36);
  }
  \<close>
  \<^verbatim>\<open>sort()\<close> without a comparator orders strings by their code units, which is the
  lexicographic order of \<^typ>\<open>string\<close>. \<open>to_int32\<close> is the conversion the bitwise
  operators apply to their operands and result. The function also leaves both arrays
  of its argument sorted; the model is of the returned string.
\<close>

definition to_int32 :: "int \<Rightarrow> int" where
  "to_int32 x = (x + 2 ^ 31) mod 2 ^ 32 - 2 ^ 31"

definition hash_step :: "int \<Rightarrow> char \<Rightarrow> int" where
  "hash_step hash c =
     (let h = (to_int32 (to_int32 hash * 2 ^ 5) - hash) + of_char c
      in to_int32 h)"

definition string_hash :: "string \<Rightarrow> int" where
  "string_hash str = foldl hash_step 0 str"

definition digit36 :: "nat \<Rightarrow> char" where
  "digit36 n = ''0123456789abcdefghijklmnopqrstuvwxyz'' ! n"

fun digits36 :: "nat \<Rightarrow> string" where
  "digits36 n = (if n < 36 then [digit36 n] else digits36 (n div 36) @ [digit36 (n mod 36)])"

declare digits36.simps [simp del]

definition toString36 :: "int \<Rightarrow> string" where
  "toString36 n = (if n < 0 then ''-'' @ digits36 (nat (- n)) else digits36 (nat n))"

definition filter_json :: "FilterConfig \<Rightarrow> string" where
  "filter_json f =
     json_object
       [(''dateRange'', Some (json_string (dateRange_name (dateRange f)))),
        (''customDateFrom'', map_option json_string (customDateFrom f)),
        (''customDateTo'', map_option json_string (customDateTo f)),
        (''journals'', Some (json_array (sort (filter_journals f)))),
        (''keywords'', Some (json_array (sort (filter_keywords f)))),
        (''showState'', Some (json_string (showState_name (showState f)))),
        (''sortBy'', Some (json_string (sortBy_name (sortBy f))))]"

definition hashFilterConfig :: "FilterConfig \<Rightarrow> string" where
  "hashFilterConfig f = toString36 (string_hash (filter_json f))"

subsection \<open>Persisted data and the sync pass (\<^verbatim>\<open>types.ts\<close>, \<^verbatim>\<open>main.ts\<close>)\<close>

record JournalStats =
  fetched :: int
  saved :: int
  skipped :: int

record Statistics =
  totalFetched :: int
  totalSaved :: int
  totalSkipped :: int
  byJournal :: "string \<rightharpoonup> JournalStats"

record BrowsePosition =
  currentDoi :: "string option"
  filterHash :: string
  scrollIndex :: int

record JournalMonitorData =
  version :: string
  lastFetch :: "string option"
  articles :: "string \<rightharpoonup> Article"
  browsePosition :: BrowsePosition
  statistics :: Statistics

datatype ApiProvider = OpenAlex | CrossRef

text \<open>The settings the modelled functions read.\<close>

record JournalMonitorSettings =
  journals :: "JournalConfig list"
  apiProvider :: ApiProvider
  articlesPerFetch :: int
  lookbackDays :: int
  openAlexEmail :: "string option"
  crossRefEmail :: "string option"
  notifyOnNewArticles :: bool
  currentFilter :: FilterConfig

datatype error = Error string

text \<open>
  What lies outside the plugin: the outcome of the two journal fetchers for their
  arguments (\<open>Inl\<close> when the call throws), the abstract the per-DOI lookup finds
  (\<^verbatim>\<open>fetchAbstractFromCrossRef\<close> catches its own errors and then returns \<^verbatim>\<open>undefined\<close>),
  the date \<^verbatim>\<open>getDateDaysAgo\<close> computes, and the outcome of writing the settings and
  the data to the store (\<open>Some e\<close> when the write is rejected).
\<close>

record Remote =
  fetchFromOpenAlex ::
    "JournalConfig \<Rightarrow> string \<Rightarrow> string \<Rightarrow> int \<Rightarrow> string option \<Rightarrow> error + Article list"
  fetchFromCrossRef ::
    "JournalConfig \<Rightarrow> string \<Rightarrow> string \<Rightarrow> int \<Rightarrow> string option \<Rightarrow> error + Article list"
  fetchAbstractFromCrossRef :: "string \<Rightarrow> string option"
  getDateDaysAgo :: "int \<Rightarrow> string"
  saveData :: "JournalMonitorSettings \<Rightarrow> JournalMonitorData \<Rightarrow> error option"

text \<open>
  The per-journal counters: \<^verbatim>\<open>if (!byJournal[k]) byJournal[k] = {fetched: 0, saved: 0,
  skipped: 0}\<close>, then an increment of one counter of \<^verbatim>\<open>byJournal[k]\<close>.
\<close>

definition ensure_journal :: "string \<Rightarrow> (string \<rightharpoonup> JournalStats) \<Rightarrow> (string \<rightharpoonup> JournalStats)" where
  "ensure_journal k m =
     (if m k = None then m(k \<mapsto> \<lparr>fetched = 0, saved = 0, skipped = 0\<rparr>) else m)"

definition update_journal ::
  "string \<Rightarrow> (JournalStats \<Rightarrow> JournalStats) \<Rightarrow> (string \<rightharpoonup> JournalStats) \<Rightarrow> (string \<rightharpoonup> JournalStats)" where
  "update_journal k upd m = (case m k of None \<Rightarrow> m | Some s \<Rightarrow> m(k \<mapsto> upd s))"

text \<open>
  The locals of \<^verbatim>\<open>fetchArticles\<close> and the data it mutates.
  \<^verbatim>\<open>
  for (const article of articles) {
    if (!this.data.articles[article.doi]) {
      this.data.articles[article.doi] = article;
      newArticleCount++;
      if (!this.data.statistics.byJournal[journal.issn]) {
        this.data.statistics.byJournal[journal.issn] = { fetched: 0, saved: 0, skipped: 0 };
      }
      this.data.statistics.byJournal[journal.issn].fetched++;
    }
  }
  \<close>
\<close>

record sync_state =
  sync_data :: JournalMonitorData
  newArticleCount :: int
  totalFetchedCount :: int

definition mergeArticle :: "JournalConfig \<Rightarrow> sync_state \<Rightarrow> Article \<Rightarrow> sync_state" where
  "mergeArticle jc st article =
     (let d = sync_data st in
      if articles d (doi article) = None
      then
        let stats = statistics d;
            by1 = ensure_journal (issn jc) (byJournal stats);
            by2 = update_journal (issn jc) (\<lambda>s. s\<lparr>fetched := fetched s + 1\<rparr>) by1
        in st\<lparr> sync_data := d\<lparr> articles := (articles d)(doi article \<mapsto> article),
                                statistics := stats\<lparr>byJournal := by2\<rparr> \<rparr>,
                newArticleCount := newArticleCount st + 1 \<rparr>
      else st)"

definition mergeArticles :: "JournalConfig \<Rightarrow> Article list \<Rightarrow> sync_state \<Rightarrow> sync_state" where
  "mergeArticles jc arts st = foldl (mergeArticle jc) st arts"

text \<open>
  \<^verbatim>\<open>
  for (const journal of enabledJournals) {
    try {
      let articles: Article[];
      if (this.settings.apiProvider === 'openalex') {
        articles = await fetchFromOpenAlex(journal, from, to,
          this.settings.articlesPerFetch, this.settings.openAlexEmail);
      } else {
        articles = await fetchFromCrossRef(journal, from, to,
          this.settings.articlesPerFetch, this.settings.crossRefEmail);
      }
      totalFetched += articles.length;
      for (const article of articles) { ... }
    } catch (error) {
      console.error(`Error fetching from ${journal.name}:`, error);
    }
  }
  \<close>
\<close>

definition fetchJournal ::
  "Remote \<Rightarrow> JournalMonitorSettings \<Rightarrow> string \<Rightarrow> string \<Rightarrow> JournalConfig \<Rightarrow> error + Article list" where
  "fetchJournal remote settings from to jc =
     (if apiProvider settings = OpenAlex
      then fetchFromOpenAlex remote jc from to (articlesPerFetch settings) (openAlexEmail settings)
      else fetchFromCrossRef remote jc from to (articlesPerFetch settings) (crossRefEmail settings))"

definition syncJournal ::
  "Remote \<Rightarrow> JournalMonitorSettings \<Rightarrow> string \<Rightarrow> string \<Rightarrow> sync_state \<Rightarrow> JournalConfig \<Rightarrow> sync_state" where
  "syncJournal remote settings from to st jc =
     (case fetchJournal remote settings from to jc of
        Inl e \<Rightarrow> st
      | Inr arts \<Rightarrow>
          mergeArticles jc arts
            (st\<lparr>totalFetchedCount := totalFetchedCount st + int (length arts)\<rparr>))"

definition syncJournals ::
  "Remote \<Rightarrow> JournalMonitorSettings \<Rightarrow> string \<Rightarrow> string \<Rightarrow> JournalConfig list \<Rightarrow> sync_state \<Rightarrow> sync_state" where
  "syncJournals remote settings from to js st = foldl (syncJournal remote settings from to) st js"

text \<open>
  The backfill after the pass. \<^verbatim>\<open>backfillAbstracts\<close> is given the stored records that
  have no abstract and whose \<^verbatim>\<open>fetchedAt\<close> equals \<^verbatim>\<open>lastFetch\<close>, and assigns to the
  \<^verbatim>\<open>abstract\<close> of those for which the lookup finds a non-empty one. The records are the
  stored objects themselves, so the assignment is an update of the collection.
\<close>

definition backfillAbstract :: "Remote \<Rightarrow> Article \<Rightarrow> Article" where
  "backfillAbstract remote article =
     (if truthy (abstract article) then article
      else if truthy (fetchAbstractFromCrossRef remote (doi article))
        then article\<lparr>abstract := fetchAbstractFromCrossRef remote (doi article)\<rparr>
      else article)"

definition backfillNew :: "Remote \<Rightarrow> JournalMonitorData \<Rightarrow> JournalMonitorData" where
  "backfillNew remote d =
     d\<lparr> articles :=
          (\<lambda>k. map_option
                 (\<lambda>a. if \<not> truthy (abstract a) \<and> Some (fetchedAt a) = lastFetch d
                      then backfillAbstract remote a else a)
                 (articles d k)) \<rparr>"

text \<open>
  \<^verbatim>\<open>
  async fetchArticles() {
    const enabledJournals = this.settings.journals.filter(j => j.enabled);
    if (enabledJournals.length === 0) { new Notice(...); return; }
    const { from, to } = getDateRange('custom',
      this.getDateDaysAgo(this.settings.lookbackDays), new Date().toISOString().split('T')[0]);
    let newArticleCount = 0;
    let totalFetched = 0;
    for (const journal of enabledJournals) { ... }
    this.data.lastFetch = new Date().toISOString();
    this.data.statistics.totalFetched += newArticleCount;
    if (newArticleCount > 0 && this.settings.apiProvider === 'openalex') {
      const newArticles = Object.values(this.data.articles)
        .filter(a => !a.abstract && a.fetchedAt === this.data.lastFetch);
      if (newArticles.length > 0) { const filled = await backfillAbstracts(newArticles); ... }
    }
    await this.savePluginData();
    ...
  }
  \<close>
  \<^verbatim>\<open>getDateRange('custom', f, t)\<close> returns \<^verbatim>\<open>{from: f || today, to: t || today}\<close>. The
  result holds the data after the call, the two locals, and the rejection of the returned
  promise when there is one; the notices and the badge are not modelled.
\<close>

definition syncWindow :: "Remote \<Rightarrow> Clock \<Rightarrow> JournalMonitorSettings \<Rightarrow> string \<times> string" where
  "syncWindow remote clock settings =
     (or_string (getDateDaysAgo remote (lookbackDays settings)) (today clock),
      or_string (today clock) (today clock))"

record sync_result =
  result_data :: JournalMonitorData
  result_newArticleCount :: int
  result_totalFetched :: int
  rejected :: "error option"

definition fetchArticles ::
  "Remote \<Rightarrow> Clock \<Rightarrow> JournalMonitorSettings \<Rightarrow> JournalMonitorData \<Rightarrow> sync_result" where
  "fetchArticles remote clock settings d =
     (let enabledJournals = filter enabled (journals settings) in
      if enabledJournals = []
      then \<lparr> result_data = d, result_newArticleCount = 0, result_totalFetched = 0,
             rejected = None \<rparr>
      else
        let (from, to) = syncWindow remote clock settings;
            st = syncJournals remote settings from to enabledJournals
                   \<lparr> sync_data = d, newArticleCount = 0, totalFetchedCount = 0 \<rparr>;
            d1 = (sync_data st)\<lparr>lastFetch := Some (nowISO clock)\<rparr>;
            d2 = d1\<lparr>statistics := (statistics d1)
                       \<lparr>totalFetched := totalFetched (statistics d1) + newArticleCount st\<rparr>\<rparr>;
            d3 = (if newArticleCount st > 0 \<and> apiProvider settings = OpenAlex
                  then backfillNew remote d2 else d2)
        in \<lparr> result_data = d3, result_newArticleCount = newArticleCount st,
              result_totalFetched = totalFetchedCount st,
              rejected = saveData remote settings d3 \<rparr>)"

subsection \<open>Save and skip in the browse view (\<^verbatim>\<open>views/BrowseView.ts\<close>)\<close>

text \<open>
  The view holds the filtered list of articles and an index into it. The list holds the
  stored objects of the collection, each under its own DOI, so an assignment to a field of
  the current article is an update of the list element and of the stored record.
  \<open>article_at\<close> is the array read \<^verbatim>\<open>this.articles[this.currentIndex]\<close>, \<^verbatim>\<open>undefined\<close>
  off the array, and \<open>splice1\<close> is \<^verbatim>\<open>splice(i, 1)\<close> at an index on the array.
\<close>

record BrowseView =
  bv_settings :: JournalMonitorSettings
  bv_data :: JournalMonitorData
  bv_articles :: "Article list"
  currentIndex :: int

definition article_at :: "Article list \<Rightarrow> int \<Rightarrow> Article option" where
  "article_at xs i = (if 0 \<le> i \<and> i < int (length xs) then Some (xs ! nat i) else None)"

definition splice1 :: "'a list \<Rightarrow> int \<Rightarrow> 'a list" where
  "splice1 xs i = take (nat i) xs @ drop (Suc (nat i)) xs"

text \<open>
  \<^verbatim>\<open>
  async saveArticle() {
    if (this.articles.length === 0) return;
    const article = this.articles[this.currentIndex];
    if (!article) return;
    try {
      const path = await saveArticleNote(this.app, article, this.settings);
      article.state = 'saved';
      article.savedAt = new Date().toISOString();
      article.savedPath = path;
      this.data.articles[article.doi] = article;
      this.data.statistics.totalSaved++;
      if (!this.data.statistics.byJournal[article.journalIssn]) {
        this.data.statistics.byJournal[article.journalIssn] = { fetched: 0, saved: 0, skipped: 0 };
      }
      this.data.statistics.byJournal[article.journalIssn].saved++;
      this.onDataChange();
      if (this.settings.currentFilter.showState === 'unseen') {
        this.articles.splice(this.currentIndex, 1);
        if (this.currentIndex >= this.articles.length) {
          this.currentIndex = Math.max(0, this.articles.length - 1);
        }
        ...
      } else { ... }
    } catch (error) {
      console.error('Error saving article:', error);
      new Notice('Error saving article');
    }
  }
  \<close>
  The note writer is a parameter: the path it returns, or \<open>Inl\<close> when it rejects.
\<close>

definition saveArticle ::
  "(Article \<Rightarrow> JournalMonitorSettings \<Rightarrow> error + string) \<Rightarrow> Clock \<Rightarrow> BrowseView \<Rightarrow> BrowseView" where
  "saveArticle saveArticleNote clock v =
     (if bv_articles v = [] then v
      else
        case article_at (bv_articles v) (currentIndex v) of
          None \<Rightarrow> v
        | Some article \<Rightarrow>
            (case saveArticleNote article (bv_settings v) of
               Inl e \<Rightarrow> v
             | Inr path \<Rightarrow>
                 let article' = article\<lparr> state := Saved, savedAt := Some (nowISO clock),
                                         savedPath := Some path \<rparr>;
                     d = bv_data v;
                     stats = (statistics d)\<lparr>totalSaved := totalSaved (statistics d) + 1\<rparr>;
                     by1 = ensure_journal (journalIssn article') (byJournal stats);
                     by2 = update_journal (journalIssn article')
                             (\<lambda>s. s\<lparr>saved := saved s + 1\<rparr>) by1;
                     d' = d\<lparr> articles := (articles d)(doi article' \<mapsto> article'),
                            statistics := stats\<lparr>byJournal := by2\<rparr> \<rparr>;
                     arts' = (bv_articles v)[nat (currentIndex v) := article'];
                     v' = v\<lparr>bv_data := d', bv_articles := arts'\<rparr>
                 in if showState (currentFilter (bv_settings v)) = ShowUnseen
                    then
                      let arts'' = splice1 arts' (currentIndex v)
                      in v'\<lparr> bv_articles := arts'',
                             currentIndex :=
                               (if currentIndex v \<ge> int (length arts'')
                                then max 0 (int (length arts'') - 1)
                                else currentIndex v) \<rparr>
                    else v'))"

text \<open>
  \<^verbatim>\<open>
  private savePosition() {
    this.data.browsePosition.scrollIndex = this.currentIndex;
    if (this.articles.length > 0) {
      this.data.browsePosition.currentDoi = this.articles[this.currentIndex]?.doi || null;
    }
    this.onDataChange();
  }

  skipArticle() {
    if (this.articles.length === 0) return;
    const article = this.articles[this.currentIndex];
    if (!article) return;
    article.state = 'skipped';
    this.data.articles[article.doi] = article;
    this.data.statistics.totalSkipped++;
    if (!this.data.statistics.byJournal[article.journalIssn]) {
      this.data.statistics.byJournal[article.journalIssn] = { fetched: 0, saved: 0, skipped: 0 };
    }
    this.data.statistics.byJournal[article.journalIssn].skipped++;
    this.onDataChange();
    if (this.settings.currentFilter.showState === 'unseen') {
      this.articles.splice(this.currentIndex, 1);
      if (this.currentIndex >= this.articles.length) {
        this.currentIndex = Math.max(0, this.articles.length - 1);
      }
    } else {
      this.currentIndex++;
      if (this.currentIndex >= this.articles.length) {
        this.currentIndex = this.articles.length - 1;
      }
    }
    ...
    this.savePosition();
  }
  \<close>
\<close>

definition savePosition :: "BrowseView \<Rightarrow> BrowseView" where
  "savePosition v =
     (let bp = (browsePosition (bv_data v))\<lparr>scrollIndex := currentIndex v\<rparr>;
          bp' = (if bv_articles v \<noteq> []
                 then bp\<lparr> currentDoi :=
                            (case article_at (bv_articles v) (currentIndex v) of
                               None \<Rightarrow> None
                             | Some a \<Rightarrow> if doi a \<noteq> [] then Some (doi a) else None) \<rparr>
                 else bp)
      in v\<lparr>bv_data := (bv_data v)\<lparr>browsePosition := bp'\<rparr>\<rparr>)"

definition skipArticle :: "BrowseView \<Rightarrow> BrowseView" where
  "skipArticle v =
     (if bv_articles v = [] then v
      else
        case article_at (bv_articles v) (currentIndex v) of
          None \<Rightarrow> v
        | Some article \<Rightarrow>
            let article' = article\<lparr>state := Skipped\<rparr>;
                d = bv_data v;
                stats = (statistics d)\<lparr>totalSkipped := totalSkipped (statistics d) + 1\<rparr>;
                by1 = ensure_journal (journalIssn article') (byJournal stats);
                by2 = update_journal (journalIssn article')
                        (\<lambda>s. s\<lparr>skipped := skipped s + 1\<rparr>) by1;
                d' = d\<lparr> articles := (articles d)(doi article' \<mapsto> article'),
                       statistics := stats\<lparr>byJournal := by2\<rparr> \<rparr>;
                arts' = (bv_articles v)[nat (currentIndex v) := article'];
                v' = v\<lparr>bv_data := d', bv_articles := arts'\<rparr>;
                v'' =
                  (if showState (currentFilter (bv_settings v)) = ShowUnseen
                   then
                     let arts'' = splice1 arts' (currentIndex v)
                     in v'\<lparr> bv_articles := arts'',
                            currentIndex :=
                              (if currentIndex v \<ge> int (length arts'')
                               then max 0 (int (length arts'') - 1)
                               else currentIndex v) \<rparr>
                   else
                     v'\<lparr> currentIndex :=
                           (if currentIndex v + 1 \<ge> int (length arts')
                            then int (length arts') - 1
                            else currentIndex v + 1) \<rparr>)
            in savePosition v'')"

subsection \<open>Default and example values (\<^verbatim>\<open>types.ts\<close>)\<close>

text \<open>
  The filter of \<^verbatim>\<open>DEFAULT_SETTINGS\<close> and \<^verbatim>\<open>DEFAULT_DATA\<close> of the source, and the
  sample journals, articles and view the instances below are about.
\<close>

definition DEFAULT_FILTER :: FilterConfig where
  "DEFAULT_FILTER =
     \<lparr> dateRange = Month, customDateFrom = None, customDateTo = None,
       filter_journals = [], filter_keywords = [], searchInAbstracts = True,
       showState = ShowUnseen, sortBy = DateDesc \<rparr>"

definition DEFAULT_DATA :: JournalMonitorData where
  "DEFAULT_DATA =
     \<lparr> version = ''1.0.0'', lastFetch = None, articles = Map.empty,
       browsePosition = \<lparr>currentDoi = None, filterHash = [], scrollIndex = 0\<rparr>,
       statistics =
         \<lparr>totalFetched = 0, totalSaved = 0, totalSkipped = 0, byJournal = Map.empty\<rparr> \<rparr>"

definition example_journal :: "string \<Rightarrow> string \<Rightarrow> JournalConfig" where
  "example_journal n i =
     \<lparr> name = n, issn = i, issnElectronic = None, publisher = ''Elsevier'', enabled = True,
       color = None \<rparr>"

definition example_settings :: JournalMonitorSettings where
  "example_settings =
     \<lparr> journals = [example_journal ''One'' ''0001-0001'', example_journal ''Two'' ''0002-0002'',
                   example_journal ''Three'' ''0003-0003''],
       apiProvider = OpenAlex, articlesPerFetch = 50, lookbackDays = 30,
       openAlexEmail = Some [], crossRefEmail = Some [], notifyOnNewArticles = True,
       currentFilter = DEFAULT_FILTER \<rparr>"

definition example_article :: "string \<Rightarrow> string \<Rightarrow> Article" where
  "example_article d i =
     \<lparr> doi = d, title = ''Forest'', authors = [], journal = ''One'', journalIssn = i,
       volume = None, issue = None, pages = None, date = ''2024-01-01'', year = 2024,
       abstract = Some ''biomass lidar'', article_keywords = None,
       url = ''https://doi.org/'' @ d, openAccessUrl = None, state = Unseen,
       fetchedAt = ''2024-01-02T00:00:00.000Z'', viewedAt = None, savedAt = None,
       savedPath = None \<rparr>"

definition example_clock :: Clock where
  "example_clock =
     \<lparr>today = ''2024-01-03'', thisYear = 2024, nowISO = ''2024-01-03T00:00:00.000Z''\<rparr>"

definition example_view :: BrowseView where
  "example_view =
     \<lparr> bv_settings = example_settings,
       bv_data = DEFAULT_DATA\<lparr>articles :=
         [''10.1/a'' \<mapsto> example_article ''10.1/a'' ''0001-0001'',
          ''10.1/b'' \<mapsto> example_article ''10.1/b'' ''0002-0002'']\<rparr>,
       bv_articles = [example_article ''10.1/a'' ''0001-0001'',
                      example_article ''10.1/b'' ''0002-0002''],
       currentIndex = 0 \<rparr>"

definition example_saved_article :: Article where
  "example_saved_article =
     (example_article ''10.1/a'' ''0001-0001'')
       \<lparr> state := Saved, viewedAt := Some ''2024-01-02T08:00:00.000Z'',
         savedAt := Some ''2024-01-02T09:00:00.000Z'',
         savedPath := Some ''Literature/Forest.md'' \<rparr>"

definition example_data :: JournalMonitorData where
  "example_data = DEFAULT_DATA\<lparr>articles := [''10.1/a'' \<mapsto> example_saved_article]\<rparr>"

text \<open>
  A remote side on which the first journal returns a known and a new article, the second
  journal's fetch throws, and the third journal returns one new article.
\<close>

definition example_remote :: Remote where
  "example_remote =
     \<lparr> fetchFromOpenAlex = (\<lambda>jc from to perPage email.
         if issn jc = ''0001-0001''
         then Inr [example_article ''10.1/a'' ''0001-0001'',
                   example_article ''10.1/c'' ''0001-0001'']
         else if issn jc = ''0002-0002'' then Inl (Error ''request failed'')
         else Inr [example_article ''10.1/d'' ''0003-0003'']),
       fetchFromCrossRef = (\<lambda>jc from to rows email. Inr []),
       fetchAbstractFromCrossRef = (\<lambda>d. None),
       getDateDaysAgo = (\<lambda>days. ''2023-12-04''),
       saveData = (\<lambda>s d. None) \<rparr>"

section \<open>Properties\<close>

subsection \<open>Abstract reconstruction\<close>


text \<open>
  C4 (as the code has it). \<^const>\<open>reconstructAbstract\<close> returns \<^verbatim>\<open>undefined\<close> exactly
  when the index argument is absent. For an index that is present but holds no word,
  or only words with empty position lists, it returns the empty string.
\<close>

theorem reconstructAbstract_undefined_iff_absent:
  "(reconstructAbstract idx = None \<longleftrightarrow> idx = None)
   \<and> reconstructAbstract (Some []) = Some ''''
   \<and> reconstructAbstract (Some (map (\<lambda>w. (w, [])) ws)) = Some ''''"
proof -
  have "flatten_index (map (\<lambda>w. (w, [])) ws) = []"
    by (induction ws) (simp_all add: flatten_index_def)
  moreover have "flatten_index [] = []"
    by (simp add: flatten_index_def)
  ultimately show ?thesis
    by (cases idx) (simp_all add: reconstructAbstract_def)
qed

text \<open>
  C4 as stated fails on the empty index: the result is the empty string, not
  \<^verbatim>\<open>undefined\<close>.
\<close>

theorem reconstructAbstract_empty_index_counterexample:
  "reconstructAbstract (Some []) \<noteq> None"
  by (simp add: reconstructAbstract_def)

subsection \<open>Save and skip\<close>

text \<open>What the two actions leave in the data when the current article exists.\<close>

lemma ensure_update_journal:
  "update_journal k upd (ensure_journal k m) k =
     Some (upd (case m k of None \<Rightarrow> \<lparr>fetched = 0, saved = 0, skipped = 0\<rparr> | Some s \<Rightarrow> s))"
  by (simp add: update_journal_def ensure_journal_def split: option.splits)

lemma ensure_update_journal_other:
  "k' \<noteq> k \<Longrightarrow> update_journal k upd (ensure_journal k m) k' = m k'"
  by (simp add: update_journal_def ensure_journal_def split: option.splits)

lemma article_at_nonempty: "article_at xs i = Some a \<Longrightarrow> xs \<noteq> []"
  by (auto simp: article_at_def split: if_splits)

lemma saveArticle_data:
  assumes "article_at (bv_articles v) (currentIndex v) = Some a"
      and "saveArticleNote a (bv_settings v) = Inr path"
  shows "bv_data (saveArticle saveArticleNote clock v) =
     (bv_data v)\<lparr> articles := (articles (bv_data v))
         (doi a \<mapsto> a\<lparr>state := Saved, savedAt := Some (nowISO clock), savedPath := Some path\<rparr>),
       statistics := (statistics (bv_data v))
         \<lparr> totalSaved := totalSaved (statistics (bv_data v)) + 1,
           byJournal := update_journal (journalIssn a) (\<lambda>s. s\<lparr>saved := saved s + 1\<rparr>)
              (ensure_journal (journalIssn a) (byJournal (statistics (bv_data v)))) \<rparr> \<rparr>"
  using assms article_at_nonempty [OF assms(1)]
  by (simp add: saveArticle_def Let_def)

lemma savePosition_data:
  "articles (bv_data (savePosition v)) = articles (bv_data v)"
  "statistics (bv_data (savePosition v)) = statistics (bv_data v)"
  by (simp_all add: savePosition_def Let_def)

lemma skipArticle_articles:
  assumes "article_at (bv_articles v) (currentIndex v) = Some b"
  shows "articles (bv_data (skipArticle v)) =
           (articles (bv_data v))(doi b \<mapsto> b\<lparr>state := Skipped\<rparr>)"
  using assms article_at_nonempty [OF assms]
  by (simp add: skipArticle_def Let_def savePosition_data)

lemma skipArticle_statistics:
  assumes "article_at (bv_articles v) (currentIndex v) = Some b"
  shows "statistics (bv_data (skipArticle v)) = (statistics (bv_data v))
         \<lparr> totalSkipped := totalSkipped (statistics (bv_data v)) + 1,
           byJournal := update_journal (journalIssn b) (\<lambda>s. s\<lparr>skipped := skipped s + 1\<rparr>)
              (ensure_journal (journalIssn b) (byJournal (statistics (bv_data v)))) \<rparr>"
  using assms article_at_nonempty [OF assms]
  by (simp add: skipArticle_def Let_def savePosition_data)

lemma example_saved:
  "saveArticle (\<lambda>a s. Inr ''Literature/Forest.md'') example_clock example_view =
     \<lparr> bv_settings = example_settings,
       bv_data = DEFAULT_DATA\<lparr>
         articles :=
           [''10.1/a'' \<mapsto> (example_article ''10.1/a'' ''0001-0001'')
               \<lparr>state := Saved, savedAt := Some (nowISO example_clock),
                savedPath := Some ''Literature/Forest.md''\<rparr>,
            ''10.1/b'' \<mapsto> example_article ''10.1/b'' ''0002-0002''],
         statistics :=
           \<lparr>totalFetched = 0, totalSaved = 1, totalSkipped = 0,
            byJournal = [''0001-0001'' \<mapsto> \<lparr>fetched = 0, saved = 1, skipped = 0\<rparr>]\<rparr>\<rparr>,
       bv_articles = [example_article ''10.1/b'' ''0002-0002''],
       currentIndex = 0 \<rparr>"
  by (simp add: saveArticle_def example_view_def article_at_def Let_def example_article_def
      example_settings_def DEFAULT_FILTER_def DEFAULT_DATA_def splice1_def
      ensure_journal_def update_journal_def fun_upd_twist)

text \<open>
  C9. From a view whose current article is unseen, with \<open>totalSaved\<close> \<open>0\<close> and the
  \<open>saved\<close> counter of its journal \<open>0\<close> or not yet there, one save whose note is written
  stores the article as saved with \<open>savedAt\<close> and the returned path, and gives
  \<open>totalSaved = 1\<close> and the journal's \<open>saved = 1\<close>, the skip counters untouched. From a
  view whose current article is unseen, with \<open>totalSkipped\<close> \<open>0\<close> and the \<open>skipped\<close>
  counter of its journal \<open>0\<close> or not yet there, one skip stores the article as skipped and
  gives \<open>totalSkipped = 1\<close> and the journal's \<open>skipped = 1\<close>, \<open>totalSaved\<close> untouched.
\<close>

theorem save_and_skip_counters:
  "(article_at (bv_articles v) (currentIndex v) = Some a
      \<and> saveArticleNote a (bv_settings v) = Inr path
      \<and> state a = Unseen
      \<and> totalSaved (statistics (bv_data v)) = 0
      \<and> (case byJournal (statistics (bv_data v)) (journalIssn a) of
            None \<Rightarrow> True | Some s \<Rightarrow> saved s = 0)
    \<longrightarrow> (let d = bv_data (saveArticle saveArticleNote clock v) in
           articles d (doi a) =
             Some (a\<lparr>state := Saved, savedAt := Some (nowISO clock), savedPath := Some path\<rparr>)
         \<and> totalSaved (statistics d) = 1
         \<and> map_option saved (byJournal (statistics d) (journalIssn a)) = Some 1
         \<and> totalSkipped (statistics d) = totalSkipped (statistics (bv_data v))
         \<and> map_option skipped (byJournal (statistics d) (journalIssn a)) =
             Some (case byJournal (statistics (bv_data v)) (journalIssn a) of
                     None \<Rightarrow> 0 | Some s \<Rightarrow> skipped s)))
   \<and>
   (article_at (bv_articles u) (currentIndex u) = Some b
      \<and> state b = Unseen
      \<and> totalSkipped (statistics (bv_data u)) = 0
      \<and> (case byJournal (statistics (bv_data u)) (journalIssn b) of
            None \<Rightarrow> True | Some s \<Rightarrow> skipped s = 0)
    \<longrightarrow> (let d = bv_data (skipArticle u) in
           articles d (doi b) = Some (b\<lparr>state := Skipped\<rparr>)
         \<and> totalSkipped (statistics d) = 1
         \<and> map_option skipped (byJournal (statistics d) (journalIssn b)) = Some 1
         \<and> totalSaved (statistics d) = totalSaved (statistics (bv_data u))))"
proof (intro conjI impI)
  assume h: "article_at (bv_articles v) (currentIndex v) = Some a
      \<and> saveArticleNote a (bv_settings v) = Inr path
      \<and> state a = Unseen
      \<and> totalSaved (statistics (bv_data v)) = 0
      \<and> (case byJournal (statistics (bv_data v)) (journalIssn a) of
            None \<Rightarrow> True | Some s \<Rightarrow> saved s = 0)"
  then have d: "bv_data (saveArticle saveArticleNote clock v) =
     (bv_data v)\<lparr> articles := (articles (bv_data v))
         (doi a \<mapsto> a\<lparr>state := Saved, savedAt := Some (nowISO clock), savedPath := Some path\<rparr>),
       statistics := (statistics (bv_data v))
         \<lparr> totalSaved := totalSaved (statistics (bv_data v)) + 1,
           byJournal := update_journal (journalIssn a) (\<lambda>s. s\<lparr>saved := saved s + 1\<rparr>)
              (ensure_journal (journalIssn a) (byJournal (statistics (bv_data v)))) \<rparr> \<rparr>"
    by (simp add: saveArticle_data)
  from h show "let d = bv_data (saveArticle saveArticleNote clock v) in
           articles d (doi a) =
             Some (a\<lparr>state := Saved, savedAt := Some (nowISO clock), savedPath := Some path\<rparr>)
         \<and> totalSaved (statistics d) = 1
         \<and> map_option saved (byJournal (statistics d) (journalIssn a)) = Some 1
         \<and> totalSkipped (statistics d) = totalSkipped (statistics (bv_data v))
         \<and> map_option skipped (byJournal (statistics d) (journalIssn a)) =
             Some (case byJournal (statistics (bv_data v)) (journalIssn a) of
                     None \<Rightarrow> 0 | Some s \<Rightarrow> skipped s)"
    unfolding Let_def d
    by (simp add: ensure_update_journal split: option.splits)
next
  assume h: "article_at (bv_articles u) (currentIndex u) = Some b
      \<and> state b = Unseen
      \<and> totalSkipped (statistics (bv_data u)) = 0
      \<and> (case byJournal (statistics (bv_data u)) (journalIssn b) of
            None \<Rightarrow> True | Some s \<Rightarrow> skipped s = 0)"
  then have b: "article_at (bv_articles u) (currentIndex u) = Some b" by simp
  from h show "let d = bv_data (skipArticle u) in
           articles d (doi b) = Some (b\<lparr>state := Skipped\<rparr>)
         \<and> totalSkipped (statistics d) = 1
         \<and> map_option skipped (byJournal (statistics d) (journalIssn b)) = Some 1
         \<and> totalSaved (statistics d) = totalSaved (statistics (bv_data u))"
    unfolding Let_def skipArticle_articles [OF b] skipArticle_statistics [OF b]
    by (simp add: ensure_update_journal split: option.splits)
qed

theorem save_and_skip_counters_witness:
  "article_at (bv_articles example_view) (currentIndex example_view)
     = Some (example_article ''10.1/a'' ''0001-0001'')
   \<and> state (example_article ''10.1/a'' ''0001-0001'') = Unseen
   \<and> totalSaved (statistics (bv_data example_view)) = 0
   \<and> totalSaved (statistics (bv_data
        (saveArticle (\<lambda>a s. Inr ''Literature/Forest.md'') example_clock example_view))) = 1
   \<and> article_at
        (bv_articles (saveArticle (\<lambda>a s. Inr ''Literature/Forest.md'') example_clock example_view))
        (currentIndex (saveArticle (\<lambda>a s. Inr ''Literature/Forest.md'') example_clock example_view))
       = Some (example_article ''10.1/b'' ''0002-0002'')
   \<and> totalSkipped (statistics (bv_data
        (skipArticle
          (saveArticle (\<lambda>a s. Inr ''Literature/Forest.md'') example_clock example_view)))) = 1
   \<and> totalSaved (statistics (bv_data
        (skipArticle
          (saveArticle (\<lambda>a s. Inr ''Literature/Forest.md'') example_clock example_view)))) = 1"
proof -
  let ?w = "\<lambda>(a::Article) (s::JournalMonitorSettings). (Inr ''Literature/Forest.md'' :: error + string)"
  let ?a = "example_article ''10.1/a'' ''0001-0001''"
  let ?b = "example_article ''10.1/b'' ''0002-0002''"
  let ?u = "saveArticle ?w example_clock example_view"
  have h1: "article_at (bv_articles example_view) (currentIndex example_view) = Some ?a
      \<and> ?w ?a (bv_settings example_view) = Inr ''Literature/Forest.md''
      \<and> state ?a = Unseen
      \<and> totalSaved (statistics (bv_data example_view)) = 0
      \<and> (case byJournal (statistics (bv_data example_view)) (journalIssn ?a) of
            None \<Rightarrow> True | Some s \<Rightarrow> saved s = 0)"
    by (simp add: example_view_def article_at_def example_article_def DEFAULT_DATA_def)
  have h2: "article_at (bv_articles ?u) (currentIndex ?u) = Some ?b
      \<and> state ?b = Unseen
      \<and> totalSkipped (statistics (bv_data ?u)) = 0
      \<and> (case byJournal (statistics (bv_data ?u)) (journalIssn ?b) of
            None \<Rightarrow> True | Some s \<Rightarrow> skipped s = 0)"
    by (simp add: example_saved article_at_def example_article_def DEFAULT_DATA_def)
  have s: "totalSaved (statistics (bv_data ?u)) = 1"
    by (simp add: example_saved DEFAULT_DATA_def)
  from save_and_skip_counters
         [of example_view ?a ?w "''Literature/Forest.md''" example_clock ?u ?b] h1 h2
  have "totalSkipped (statistics (bv_data (skipArticle ?u))) = 1
        \<and> totalSaved (statistics (bv_data (skipArticle ?u))) = totalSaved (statistics (bv_data ?u))"
    unfolding Let_def by blast
  with h1 h2 s show ?thesis by simp
qed

text \<open>
  C10. When the note writer rejects, \<^const>\<open>saveArticle\<close> leaves the view, and with it
  the article record and every counter, as it was.
\<close>

theorem saveArticle_rejected_unchanged:
  "article_at (bv_articles v) (currentIndex v) = Some a \<Longrightarrow>
   saveArticleNote a (bv_settings v) = Inl e \<Longrightarrow>
   saveArticle saveArticleNote clock v = v"
  by (simp add: saveArticle_def)

theorem saveArticle_rejected_unchanged_witness:
  "article_at (bv_articles example_view) (currentIndex example_view)
     = Some (example_article ''10.1/a'' ''0001-0001'')
   \<and> (\<lambda>a s. Inl (Error ''disk full'')) (example_article ''10.1/a'' ''0001-0001'')
         (bv_settings example_view) = (Inl (Error ''disk full'') :: error + string)
   \<and> saveArticle (\<lambda>a s. Inl (Error ''disk full'')) example_clock example_view = example_view"
proof -
  have h: "article_at (bv_articles example_view) (currentIndex example_view)
     = Some (example_article ''10.1/a'' ''0001-0001'')"
    by (simp add: article_at_def example_view_def)
  show ?thesis
    using h saveArticle_rejected_unchanged
      [OF h, of "\<lambda>a s. Inl (Error ''disk full'')" "Error ''disk full''" example_clock]
    by simp
qed

subsection \<open>Author order\<close>

text \<open>
  What the sort does: \<open>first\<close> reads as \<open>0\<close>, which \<^verbatim>\<open>||\<close> replaces by \<open>1\<close>, so
  every tag but \<open>last\<close> has rank \<open>1\<close>; the authors tagged \<open>last\<close> go to the end and
  all others keep their input order.
\<close>

lemma author_rank_cases:
  "author_rank a = (if author_position a = ''last'' then 2 else 1)"
  by (simp add: author_rank_def order_lookup_def or_number_def)

lemma sorted_map_const:
  "(\<And>x. x \<in> set ys \<Longrightarrow> f x = (c::int)) \<Longrightarrow> sorted (map f ys)"
  by (induction ys) auto

lemma formatOpenAlexAuthors_last_at_end:
  "formatOpenAlexAuthors xs =
     map author_display_name
       (filter (\<lambda>a. author_position a \<noteq> ''last'') xs @ filter (\<lambda>a. author_position a = ''last'') xs)"
proof -
  have "sort_key author_rank xs =
     filter (\<lambda>a. author_position a \<noteq> ''last'') xs @ filter (\<lambda>a. author_position a = ''last'') xs"
  proof (rule properties_for_sort_key)
    show "mset (filter (\<lambda>a. author_position a \<noteq> ''last'') xs @ filter (\<lambda>a. author_position a = ''last'') xs) = mset xs"
      by (induction xs) simp_all
    show "\<And>k. k \<in> set (filter (\<lambda>a. author_position a \<noteq> ''last'') xs @ filter (\<lambda>a. author_position a = ''last'') xs) \<Longrightarrow>
        filter (\<lambda>x. author_rank k = author_rank x) (filter (\<lambda>a. author_position a \<noteq> ''last'') xs @ filter (\<lambda>a. author_position a = ''last'') xs)
        = filter (\<lambda>x. author_rank k = author_rank x) xs"
      by (auto simp: author_rank_cases intro!: filter_cong)
    show "sorted (map author_rank (filter (\<lambda>a. author_position a \<noteq> ''last'') xs @ filter (\<lambda>a. author_position a = ''last'') xs))"
      by (auto simp: sorted_append author_rank_cases intro: sorted_map_const [where c = 1]
          sorted_map_const [where c = 2])
  qed
  then show ?thesis by (simp add: formatOpenAlexAuthors_def)
qed

text \<open>
  C5, evaluated. With a \<open>middle\<close> author given before a \<open>first\<close> author the result
  keeps the \<open>middle\<close> author in front, because both have rank \<open>1\<close>; by the tags,
  \<open>first\<close> ranks before \<open>middle\<close>.
\<close>

theorem formatOpenAlexAuthors_first_not_before_middle:
  "formatOpenAlexAuthors
     [\<lparr>author_display_name = ''Mid'', author_position = ''middle''\<rparr>,
      \<lparr>author_display_name = ''Lead'', author_position = ''first''\<rparr>]
     = [''Mid'', ''Lead'']
   \<and> author_rank \<lparr>author_display_name = ''Lead'', author_position = ''first''\<rparr> = 1
   \<and> author_rank \<lparr>author_display_name = ''Mid'', author_position = ''middle''\<rparr> = 1
   \<and> tag_rank ''first'' < tag_rank ''middle''"
  by (simp add: formatOpenAlexAuthors_def author_rank_def order_lookup_def or_number_def
      tag_rank_def)

subsection \<open>Keyword extraction\<close>

text \<open>
  Where the code and the worded preference agree: when the preferred list that is
  present has an entry above \<open>0.3\<close>, or is absent together with the topics.
\<close>

lemma extractKeywords_agrees_with_spec:
  "(case concepts work of
      Some cs \<Rightarrow> top_names cs \<noteq> []
    | None \<Rightarrow> (case topics work of Some ts \<Rightarrow> top_names ts \<noteq> [] | None \<Rightarrow> True))
   \<Longrightarrow> extractKeywords work = spec_keywords work"
  by (auto simp: extractKeywords_def spec_keywords_def Let_def top_names_def split: option.splits)

text \<open>
  C6 (as the code has it). The keywords of the article made from a work with an
  identifier are: the names of the first eight concepts scoring above \<open>0.3\<close> when the
  work has a concept list, whatever it holds; otherwise the names of the first eight
  topics scoring above \<open>0.3\<close> when it has a topic list; otherwise its raw keyword list;
  otherwise the empty list.
\<close>

theorem openAlexToArticle_keywords_chain:
  "map_option article_keywords (openAlexToArticle clock work jname jissn) =
     (if truthy (work_doi work)
      then Some (Some
        (case concepts work of
           Some cs \<Rightarrow> map display_name (take 8 (filter (\<lambda>c. score c > 0.3) cs))
         | None \<Rightarrow>
             (case topics work of
                Some ts \<Rightarrow> map display_name (take 8 (filter (\<lambda>t. score t > 0.3) ts))
              | None \<Rightarrow>
                  (case work_keywords work of
                     Some ks \<Rightarrow> ks
                   | None \<Rightarrow> []))))
      else None)"
  by (simp add: openAlexToArticle_def extractKeywords_def top_names_def Let_def
      split: option.splits)

text \<open>
  C6 as stated fails for a work whose concept list has no entry above \<open>0.3\<close> and whose
  topic list has one: the article gets no keywords, where the worded preference gives
  the topic.
\<close>

theorem extractKeywords_empty_concepts_counterexample:
  "map_option article_keywords
     (openAlexToArticle example_clock
        \<lparr> work_doi = Some ''https://doi.org/10.1/a'', work_title = ''Forest'',
          work_display_name = ''Forest'', publication_date = ''2024-01-01'',
          publication_year = 2024, authorships = [], abstract_inverted_index = None,
          work_keywords = None, biblio = None, oa_url = None,
          concepts = Some [\<lparr>display_name = ''Geology'', score = 0.1\<rparr>],
          topics = Some [\<lparr>display_name = ''Forest ecology'', score = 0.9\<rparr>] \<rparr>
        ''One'' ''0001-0001'') = Some (Some [])
   \<and> spec_keywords
        \<lparr> work_doi = Some ''https://doi.org/10.1/a'', work_title = ''Forest'',
          work_display_name = ''Forest'', publication_date = ''2024-01-01'',
          publication_year = 2024, authorships = [], abstract_inverted_index = None,
          work_keywords = None, biblio = None, oa_url = None,
          concepts = Some [\<lparr>display_name = ''Geology'', score = 0.1\<rparr>],
          topics = Some [\<lparr>display_name = ''Forest ecology'', score = 0.9\<rparr>] \<rparr>
       = [''Forest ecology'']"
  by (simp add: openAlexToArticle_def truthy_def extractKeywords_def spec_keywords_def
      top_names_def Let_def)

subsection \<open>The filter hash\<close>

text \<open>
  The serialisation of the default filter with two journal keys given out of order: the
  keys appear sorted, and the members without a value are left out.
\<close>

lemma filter_json_example:
  "filter_json (DEFAULT_FILTER\<lparr>filter_journals := [''B'', ''A'']\<rparr>) =
     [CHR ''{'', CHR 0x22] @ ''dateRange'' @ [CHR 0x22, CHR '':'', CHR 0x22] @ ''month'' @
     [CHR 0x22, CHR '','', CHR 0x22] @ ''journals'' @ [CHR 0x22, CHR '':'', CHR ''['', CHR 0x22] @
     ''A'' @ [CHR 0x22, CHR '','', CHR 0x22] @ ''B'' @ [CHR 0x22, CHR '']'', CHR '','', CHR 0x22] @
     ''keywords'' @ [CHR 0x22, CHR '':'', CHR ''['', CHR '']'', CHR '','', CHR 0x22] @
     ''showState'' @ [CHR 0x22, CHR '':'', CHR 0x22] @ ''unseen'' @
     [CHR 0x22, CHR '','', CHR 0x22] @ ''sortBy'' @ [CHR 0x22, CHR '':'', CHR 0x22] @
     ''date-desc'' @ [CHR 0x22, CHR ''}'']"
  by (simp add: filter_json_def DEFAULT_FILTER_def json_object_def json_array_def json_string_def
      json_escape_char_def)

text \<open>Sorting forgets the order the elements were given in.\<close>

lemma sort_mset_eq: "mset xs = mset ys \<Longrightarrow> sort xs = sort (ys :: string list)"
  by (rule properties_for_sort) simp_all

lemma filter_json_order_independent:
  "mset js = mset (filter_journals f) \<Longrightarrow> mset ks = mset (filter_keywords f) \<Longrightarrow>
   filter_json (f\<lparr>filter_journals := js, filter_keywords := ks\<rparr>) = filter_json f"
proof -
  assume j: "mset js = mset (filter_journals f)" and k: "mset ks = mset (filter_keywords f)"
  have "sort js = sort (filter_journals f)" using j by (rule sort_mset_eq)
  moreover have "sort ks = sort (filter_keywords f)" using k by (rule sort_mset_eq)
  ultimately show ?thesis by (simp add: filter_json_def)
qed

text \<open>
  C8. Two filter configurations that differ only in the order of the elements of their
  journal-key array and of their keyword array have the same hash.
\<close>

theorem hashFilterConfig_order_independent:
  "mset js = mset (filter_journals f) \<Longrightarrow> mset ks = mset (filter_keywords f) \<Longrightarrow>
   hashFilterConfig (f\<lparr>filter_journals := js, filter_keywords := ks\<rparr>) = hashFilterConfig f"
  by (simp add: hashFilterConfig_def filter_json_order_independent)

theorem hashFilterConfig_order_independent_witness:
  "mset [''B'', ''A''] = mset (filter_journals (DEFAULT_FILTER\<lparr>filter_journals := [''A'', ''B''], filter_keywords := [''lidar'', ''forest'']\<rparr>))
   \<and> mset [''forest'', ''lidar''] = mset (filter_keywords (DEFAULT_FILTER\<lparr>filter_journals := [''A'', ''B''], filter_keywords := [''lidar'', ''forest'']\<rparr>))
   \<and> hashFilterConfig (DEFAULT_FILTER\<lparr>filter_journals := [''B'', ''A''], filter_keywords := [''forest'', ''lidar'']\<rparr>)
     = hashFilterConfig (DEFAULT_FILTER\<lparr>filter_journals := [''A'', ''B''], filter_keywords := [''lidar'', ''forest'']\<rparr>)"
proof -
  let ?f = "DEFAULT_FILTER\<lparr>filter_journals := [''A'', ''B''], filter_keywords := [''lidar'', ''forest'']\<rparr>"
  have h1: "mset [''B'', ''A''] = mset (filter_journals ?f)" by simp
  have h2: "mset [''forest'', ''lidar''] = mset (filter_keywords ?f)" by simp
  show ?thesis
    using h1 h2 hashFilterConfig_order_independent [OF h1 h2] by simp
qed

subsection \<open>Filtering\<close>





lemma mset_insort_cmp: "mset (insort_cmp cmp x xs) = add_mset x (mset xs)"
  by (induction xs) auto

lemma mset_array_sort: "mset (array_sort cmp xs) = mset xs"
  by (induction xs) (simp_all add: array_sort_def mset_insort_cmp)





subsection \<open>The sync pass\<close>

text \<open>
  The merge of the articles of one journal: the collection afterwards, its keys, and the
  number of insertions.
\<close>

lemma mergeArticle_articles:
  "articles (sync_data (mergeArticle jc st a)) =
     (if articles (sync_data st) (doi a) = None
      then (articles (sync_data st))(doi a \<mapsto> a) else articles (sync_data st))"
  by (simp add: mergeArticle_def Let_def)

lemma mergeArticle_count:
  "newArticleCount (mergeArticle jc st a) =
     newArticleCount st + (if articles (sync_data st) (doi a) = None then 1 else 0)"
  by (simp add: mergeArticle_def Let_def)

lemma mergeArticle_totalFetchedCount:
  "totalFetchedCount (mergeArticle jc st a) = totalFetchedCount st"
  by (simp add: mergeArticle_def Let_def)

lemma mergeArticles_Nil: "mergeArticles jc [] st = st"
  by (simp add: mergeArticles_def)

lemma mergeArticles_Cons:
  "mergeArticles jc (a # arts) st = mergeArticles jc arts (mergeArticle jc st a)"
  by (simp add: mergeArticles_def)

lemma mergeArticles_articles:
  "articles (sync_data (mergeArticles jc arts st)) k =
     (case articles (sync_data st) k of
        Some r \<Rightarrow> Some r
      | None \<Rightarrow> find (\<lambda>a. doi a = k) arts)"
proof (induction arts arbitrary: st)
  case Nil
  show ?case by (simp add: mergeArticles_Nil split: option.splits)
next
  case (Cons a arts)
  show ?case
    unfolding mergeArticles_Cons Cons.IH mergeArticle_articles
    by (auto split: option.splits)
qed

lemma mergeArticles_dom:
  "dom (articles (sync_data (mergeArticles jc arts st))) =
     dom (articles (sync_data st)) \<union> doi ` set arts"
proof (induction arts arbitrary: st)
  case Nil
  show ?case by (simp add: mergeArticles_Nil)
next
  case (Cons a arts)
  show ?case
    unfolding mergeArticles_Cons Cons.IH mergeArticle_articles
    by (auto split: if_splits)
qed

lemma mergeArticles_totalFetchedCount:
  "totalFetchedCount (mergeArticles jc arts st) = totalFetchedCount st"
  by (induction arts arbitrary: st)
     (simp_all add: mergeArticles_Nil mergeArticles_Cons mergeArticle_totalFetchedCount)

lemma mergeArticles_count:
  "newArticleCount (mergeArticles jc arts st) =
     newArticleCount st + int (card (doi ` set arts - dom (articles (sync_data st))))"
proof (induction arts arbitrary: st)
  case Nil
  show ?case by (simp add: mergeArticles_Nil)
next
  case (Cons a arts)
  let ?D = "dom (articles (sync_data st))"
  show ?case
  proof (cases "articles (sync_data st) (doi a) = None")
    case True
    then have new: "doi a \<notin> ?D" by (simp add: domIff)
    have dom': "dom (articles (sync_data (mergeArticle jc st a))) = insert (doi a) ?D"
      using True by (simp add: mergeArticle_articles)
    have e: "doi ` set (a # arts) - ?D = insert (doi a) (doi ` set arts - insert (doi a) ?D)"
      using new by auto
    have "card (insert (doi a) (doi ` set arts - insert (doi a) ?D))
        = Suc (card (doi ` set arts - insert (doi a) ?D))"
      by (rule card_insert_disjoint) simp_all
    then have "card (doi ` set (a # arts) - ?D)
        = Suc (card (doi ` set arts - insert (doi a) ?D))"
      by (simp only: e)
    then show ?thesis
      unfolding mergeArticles_Cons Cons.IH dom' mergeArticle_count using True by simp
  next
    case False
    then have old: "doi a \<in> ?D" by (simp add: domIff)
    have dom': "dom (articles (sync_data (mergeArticle jc st a))) = ?D"
      by (simp add: mergeArticle_articles False)
    have "doi ` set (a # arts) - ?D = doi ` set arts - ?D"
      using old by auto
    then show ?thesis
      unfolding mergeArticles_Cons Cons.IH dom' mergeArticle_count using False by simp
  qed
qed

text \<open>
  The pass over the journals: a journal whose fetch fails leaves the state as it is, known
  records stay, and the counters are those of the articles the succeeding journals
  return.
\<close>

lemma syncJournals_Nil: "syncJournals remote settings f t [] st = st"
  by (simp add: syncJournals_def)

lemma syncJournals_Cons:
  "syncJournals remote settings f t (jc # js) st =
     syncJournals remote settings f t js (syncJournal remote settings f t st jc)"
  by (simp add: syncJournals_def)

lemma syncJournal_failed:
  "fetchJournal remote settings f t jc = Inl e \<Longrightarrow> syncJournal remote settings f t st jc = st"
  by (simp add: syncJournal_def)

lemma syncJournals_skip_failed:
  "syncJournals remote settings f t js st =
     syncJournals remote settings f t
       (filter (\<lambda>jc. \<not> isl (fetchJournal remote settings f t jc)) js) st"
proof (induction js arbitrary: st)
  case Nil
  show ?case by simp
next
  case (Cons jc js)
  show ?case
  proof (cases "fetchJournal remote settings f t jc")
    case (Inl e)
    then show ?thesis
      using Cons.IH by (simp add: syncJournals_Cons syncJournal_failed)
  next
    case (Inr arts)
    then show ?thesis
      using Cons.IH by (simp add: syncJournals_Cons)
  qed
qed

lemma syncJournal_known:
  "articles (sync_data st) k = Some r \<Longrightarrow>
   articles (sync_data (syncJournal remote settings f t st jc)) k = Some r"
  by (simp add: syncJournal_def mergeArticles_articles split: sum.splits)

lemma syncJournals_known:
  "articles (sync_data st) k = Some r \<Longrightarrow>
   articles (sync_data (syncJournals remote settings f t js st)) k = Some r"
  by (induction js arbitrary: st) (simp_all add: syncJournals_Nil syncJournals_Cons syncJournal_known)

lemma syncJournals_summary:
  "newArticleCount (syncJournals remote settings f t js st) =
     newArticleCount st +
     int (card (doi ` set (concat (map (\<lambda>jc. case fetchJournal remote settings f t jc of
                                             Inl e \<Rightarrow> [] | Inr arts \<Rightarrow> arts) js))
                - dom (articles (sync_data st))))
   \<and> dom (articles (sync_data (syncJournals remote settings f t js st))) =
       dom (articles (sync_data st)) \<union>
       doi ` set (concat (map (\<lambda>jc. case fetchJournal remote settings f t jc of
                                      Inl e \<Rightarrow> [] | Inr arts \<Rightarrow> arts) js))
   \<and> totalFetchedCount (syncJournals remote settings f t js st) =
       totalFetchedCount st +
       int (length (concat (map (\<lambda>jc. case fetchJournal remote settings f t jc of
                                      Inl e \<Rightarrow> [] | Inr arts \<Rightarrow> arts) js)))"
proof (induction js arbitrary: st)
  case Nil
  show ?case by (simp add: syncJournals_Nil)
next
  case (Cons jc js)
  let ?got = "\<lambda>jc. case fetchJournal remote settings f t jc of Inl e \<Rightarrow> [] | Inr arts \<Rightarrow> arts"
  let ?F = "doi ` set (concat (map ?got js))"
  let ?D = "dom (articles (sync_data st))"
  show ?case
  proof (cases "fetchJournal remote settings f t jc")
    case (Inl e)
    then show ?thesis
      using Cons.IH [of st] by (simp add: syncJournals_Cons syncJournal_failed)
  next
    case (Inr arts)
    let ?A = "doi ` set arts"
    let ?st' = "syncJournal remote settings f t st jc"
    have st': "?st' = mergeArticles jc arts
        (st\<lparr>totalFetchedCount := totalFetchedCount st + int (length arts)\<rparr>)"
      using Inr by (simp add: syncJournal_def)
    have c: "newArticleCount ?st' = newArticleCount st + int (card (?A - ?D))"
      unfolding st' mergeArticles_count by simp
    have d: "dom (articles (sync_data ?st')) = ?D \<union> ?A"
      unfolding st' mergeArticles_dom by simp
    have tf: "totalFetchedCount ?st' = totalFetchedCount st + int (length arts)"
      unfolding st' mergeArticles_totalFetchedCount by simp
    have split: "(?A \<union> ?F) - ?D = (?A - ?D) \<union> (?F - (?D \<union> ?A))" by auto
    have fA: "finite (?A - ?D)" by simp
    have fF: "finite (?F - (?D \<union> ?A))" by (intro finite_Diff finite_imageI finite_set)
    have disj: "(?A - ?D) \<inter> (?F - (?D \<union> ?A)) = {}" by blast
    have cardeq: "card ((?A \<union> ?F) - ?D) = card (?A - ?D) + card (?F - (?D \<union> ?A))"
      unfolding split by (rule card_Un_disjoint [OF fA fF disj])
    have F': "doi ` set (concat (map ?got (jc # js))) = ?A \<union> ?F"
      using Inr by (simp add: image_Un del: set_concat)
    have len: "length (concat (map ?got (jc # js))) = length arts + length (concat (map ?got js))"
      using Inr by simp
    from Cons.IH [of ?st']
    have ih1: "newArticleCount (syncJournals remote settings f t js ?st') =
        newArticleCount ?st' + int (card (?F - dom (articles (sync_data ?st'))))"
      and ih2: "dom (articles (sync_data (syncJournals remote settings f t js ?st'))) =
        dom (articles (sync_data ?st')) \<union> ?F"
      and ih3: "totalFetchedCount (syncJournals remote settings f t js ?st') =
        totalFetchedCount ?st' + int (length (concat (map ?got js)))"
      by blast+
    have g1: "newArticleCount (syncJournals remote settings f t js ?st') =
        newArticleCount st + int (card ((?A \<union> ?F) - ?D))"
      by (simp only: ih1 c d cardeq of_nat_add add.assoc)
    have g2: "dom (articles (sync_data (syncJournals remote settings f t js ?st'))) =
        ?D \<union> (?A \<union> ?F)"
      by (simp only: ih2 d Un_assoc)
    have g3: "totalFetchedCount (syncJournals remote settings f t js ?st') =
        totalFetchedCount st + int (length arts + length (concat (map ?got js)))"
      by (simp only: ih3 tf of_nat_add add.assoc)
    show ?thesis
      unfolding syncJournals_Cons F' len using g1 g2 g3 by blast
  qed
qed

lemma backfillAbstract_only_abstract:
  "backfillAbstract remote a = a\<lparr>abstract := abstract (backfillAbstract remote a)\<rparr>"
  by (simp add: backfillAbstract_def)

lemma backfillAbstract_has_abstract:
  "truthy (abstract a) \<Longrightarrow> backfillAbstract remote a = a"
  by (simp add: backfillAbstract_def)

lemma backfillNew_known:
  "articles d k = Some r \<Longrightarrow>
   \<exists>r'. articles (backfillNew remote d) k = Some r' \<and> r' = r\<lparr>abstract := abstract r'\<rparr>
       \<and> (truthy (abstract r) \<longrightarrow> r' = r)"
  using backfillAbstract_only_abstract [of remote r]
  by (simp add: backfillNew_def)

lemma fetchArticles_data_cases:
  assumes "articles d k = Some r"
  shows "\<exists>r'. articles (result_data (fetchArticles remote clock settings d)) k = Some r'
           \<and> r' = r\<lparr>abstract := abstract r'\<rparr> \<and> (truthy (abstract r) \<longrightarrow> r' = r)"
proof (cases "filter enabled (journals settings) = []")
  case True
  then show ?thesis using assms by (simp add: fetchArticles_def)
next
  case False
  obtain f t where w: "syncWindow remote clock settings = (f, t)" by (cases "syncWindow remote clock settings")
  let ?st = "syncJournals remote settings f t (filter enabled (journals settings))
                   \<lparr> sync_data = d, newArticleCount = 0, totalFetchedCount = 0 \<rparr>"
  let ?d2 = "(sync_data ?st)\<lparr>lastFetch := Some (nowISO clock),
      statistics := (statistics (sync_data ?st))
        \<lparr>totalFetched := totalFetched (statistics (sync_data ?st)) + newArticleCount ?st\<rparr>\<rparr>"
  have k: "articles (sync_data ?st) k = Some r"
    using assms by (simp add: syncJournals_known)
  then have k2: "articles ?d2 k = Some r" by simp
  have res: "result_data (fetchArticles remote clock settings d) =
     (if newArticleCount ?st > 0 \<and> apiProvider settings = OpenAlex
      then backfillNew remote ?d2 else ?d2)"
    using False w by (simp add: fetchArticles_def Let_def)
  show ?thesis
  proof (cases "newArticleCount ?st > 0 \<and> apiProvider settings = OpenAlex")
    case True
    have e: "result_data (fetchArticles remote clock settings d) = backfillNew remote ?d2"
      unfolding res by (rule if_P [OF True])
    show ?thesis unfolding e by (rule backfillNew_known [OF k2])
  next
    case False
    have e: "result_data (fetchArticles remote clock settings d) = ?d2"
      unfolding res by (rule if_not_P [OF False])
    show ?thesis unfolding e using k2 by simp
  qed
qed

text \<open>
  C1. The merge of fetched articles into a collection leaves every record whose
  identifier is already a key exactly as it was, and puts under an identifier that is not
  yet a key the first fetched article that has it; it counts one insertion for each
  distinct identifier that was not yet a key. Over a whole run of
  \<^const>\<open>fetchArticles\<close>, a record whose identifier was a key before the run is still
  there with the same state, \<open>viewedAt\<close>, \<open>savedAt\<close> and saved location; only its
  abstract may have been filled in, and not when it had one.
\<close>

theorem fetchArticles_keeps_known_records:
  "articles (sync_data (mergeArticles jc arts st)) k =
     (case articles (sync_data st) k of
        Some r \<Rightarrow> Some r
      | None \<Rightarrow> find (\<lambda>a. doi a = k) arts)
   \<and> newArticleCount (mergeArticles jc arts st) =
       newArticleCount st + int (card (doi ` set arts - dom (articles (sync_data st))))
   \<and> (articles d k = Some r \<longrightarrow>
        (\<exists>r'. articles (result_data (fetchArticles remote clock settings d)) k = Some r'
            \<and> state r' = state r \<and> viewedAt r' = viewedAt r
            \<and> savedAt r' = savedAt r \<and> savedPath r' = savedPath r
            \<and> r' = r\<lparr>abstract := abstract r'\<rparr>
            \<and> (truthy (abstract r) \<longrightarrow> r' = r)))"
proof (intro conjI impI)
  show "articles (sync_data (mergeArticles jc arts st)) k =
     (case articles (sync_data st) k of
        Some r \<Rightarrow> Some r
      | None \<Rightarrow> find (\<lambda>a. doi a = k) arts)"
    by (rule mergeArticles_articles)
next
  show "newArticleCount (mergeArticles jc arts st) =
       newArticleCount st + int (card (doi ` set arts - dom (articles (sync_data st))))"
    by (rule mergeArticles_count)
next
  assume "articles d k = Some r"
  from fetchArticles_data_cases [OF this, of remote clock settings]
  obtain r' where r': "articles (result_data (fetchArticles remote clock settings d)) k = Some r'"
    and e: "r' = r\<lparr>abstract := abstract r'\<rparr>"
    and t: "truthy (abstract r) \<longrightarrow> r' = r"
    by blast
  have "state r' = state (r\<lparr>abstract := abstract r'\<rparr>)"
       "viewedAt r' = viewedAt (r\<lparr>abstract := abstract r'\<rparr>)"
       "savedAt r' = savedAt (r\<lparr>abstract := abstract r'\<rparr>)"
       "savedPath r' = savedPath (r\<lparr>abstract := abstract r'\<rparr>)"
    using e by (rule arg_cong)+
  then have "state r' = state r" "viewedAt r' = viewedAt r" "savedAt r' = savedAt r"
      "savedPath r' = savedPath r"
    by simp_all
  with r' e t
  show "\<exists>r'. articles (result_data (fetchArticles remote clock settings d)) k = Some r'
            \<and> state r' = state r \<and> viewedAt r' = viewedAt r
            \<and> savedAt r' = savedAt r \<and> savedPath r' = savedPath r
            \<and> r' = r\<lparr>abstract := abstract r'\<rparr>
            \<and> (truthy (abstract r) \<longrightarrow> r' = r)"
    by blast
qed

theorem fetchArticles_keeps_known_records_witness:
  "articles example_data ''10.1/a'' = Some example_saved_article
   \<and> find (\<lambda>a. doi a = ''10.1/a'')
        [example_article ''10.1/a'' ''0001-0001'', example_article ''10.1/c'' ''0001-0001'']
       = Some (example_article ''10.1/a'' ''0001-0001'')
   \<and> articles (result_data
        (fetchArticles example_remote example_clock example_settings example_data)) ''10.1/a''
       = Some example_saved_article
   \<and> state example_saved_article = Saved"
proof -
  have h: "articles example_data ''10.1/a'' = Some example_saved_article"
    by (simp add: example_data_def)
  have t: "truthy (abstract example_saved_article)"
    by (simp add: truthy_def example_saved_article_def example_article_def)
  from fetchArticles_keeps_known_records
         [of _ _ _ "''10.1/a''" example_data example_saved_article example_remote
            example_clock example_settings, THEN conjunct2, THEN conjunct2] h t
  have "articles (result_data
        (fetchArticles example_remote example_clock example_settings example_data)) ''10.1/a''
       = Some example_saved_article"
    by blast
  then show ?thesis
    using h by (simp add: example_saved_article_def example_article_def)
qed

text \<open>The sample pass: the second of three journals fails.\<close>

lemma example_window:
  "syncWindow example_remote example_clock example_settings = (''2023-12-04'', ''2024-01-03'')"
  by (simp add: syncWindow_def example_remote_def example_clock_def or_string_def)

lemma example_fetches:
  "fetchJournal example_remote example_settings f t (example_journal ''One'' ''0001-0001'') =
     Inr [example_article ''10.1/a'' ''0001-0001'', example_article ''10.1/c'' ''0001-0001'']"
  "fetchJournal example_remote example_settings f t (example_journal ''Two'' ''0002-0002'') =
     Inl (Error ''request failed'')"
  "fetchJournal example_remote example_settings f t (example_journal ''Three'' ''0003-0003'') =
     Inr [example_article ''10.1/d'' ''0003-0003'']"
  by (simp_all add: fetchJournal_def example_remote_def example_settings_def example_journal_def)

lemma example_journal_issn: "issn (example_journal n i) = i"
  by (simp add: example_journal_def)

lemma example_pass:
  "newArticleCount (syncJournals example_remote example_settings f t
      [example_journal ''One'' ''0001-0001'', example_journal ''Two'' ''0002-0002'',
       example_journal ''Three'' ''0003-0003'']
      \<lparr>sync_data = example_data, newArticleCount = 0, totalFetchedCount = 0\<rparr>) = 2"
  "totalFetchedCount (syncJournals example_remote example_settings f t
      [example_journal ''One'' ''0001-0001'', example_journal ''Two'' ''0002-0002'',
       example_journal ''Three'' ''0003-0003'']
      \<lparr>sync_data = example_data, newArticleCount = 0, totalFetchedCount = 0\<rparr>) = 3"
  "byJournal (statistics (sync_data (syncJournals example_remote example_settings f t
      [example_journal ''One'' ''0001-0001'', example_journal ''Two'' ''0002-0002'',
       example_journal ''Three'' ''0003-0003'']
      \<lparr>sync_data = example_data, newArticleCount = 0, totalFetchedCount = 0\<rparr>))) =
     [''0001-0001'' \<mapsto> \<lparr>fetched = 1, saved = 0, skipped = 0\<rparr>,
      ''0003-0003'' \<mapsto> \<lparr>fetched = 1, saved = 0, skipped = 0\<rparr>]"
  "totalFetched (statistics (sync_data (syncJournals example_remote example_settings f t
      [example_journal ''One'' ''0001-0001'', example_journal ''Two'' ''0002-0002'',
       example_journal ''Three'' ''0003-0003'']
      \<lparr>sync_data = example_data, newArticleCount = 0, totalFetchedCount = 0\<rparr>))) = 0"
  by (simp_all add: syncJournals_def syncJournal_def example_fetches mergeArticles_def
      mergeArticle_def Let_def example_data_def DEFAULT_DATA_def example_article_def
      example_journal_issn ensure_journal_def update_journal_def)

text \<open>The counters and the outcome of a whole run, and the sample run.\<close>

lemma fetchArticles_counts:
  assumes w: "syncWindow remote clock settings = (f, t)"
  shows "result_newArticleCount (fetchArticles remote clock settings d) =
           int (card (doi ` set (concat (map (\<lambda>jc. case fetchJournal remote settings f t jc of
                                                   Inl e \<Rightarrow> [] | Inr arts \<Rightarrow> arts)
                                            (filter enabled (journals settings))))
                      - dom (articles d)))"
    and "result_totalFetched (fetchArticles remote clock settings d) =
           int (length (concat (map (\<lambda>jc. case fetchJournal remote settings f t jc of
                                            Inl e \<Rightarrow> [] | Inr arts \<Rightarrow> arts)
                                     (filter enabled (journals settings)))))"
proof -
  let ?js = "filter enabled (journals settings)"
  let ?st0 = "\<lparr> sync_data = d, newArticleCount = 0, totalFetchedCount = 0 \<rparr>"
  note sm = syncJournals_summary [of remote settings f t ?js ?st0]
  have n: "result_newArticleCount (fetchArticles remote clock settings d) =
      newArticleCount (syncJournals remote settings f t ?js ?st0)"
    using w by (cases "?js = []") (simp_all add: fetchArticles_def Let_def syncJournals_Nil)
  have l: "result_totalFetched (fetchArticles remote clock settings d) =
      totalFetchedCount (syncJournals remote settings f t ?js ?st0)"
    using w by (cases "?js = []") (simp_all add: fetchArticles_def Let_def syncJournals_Nil)
  show "result_newArticleCount (fetchArticles remote clock settings d) =
           int (card (doi ` set (concat (map (\<lambda>jc. case fetchJournal remote settings f t jc of
                                                   Inl e \<Rightarrow> [] | Inr arts \<Rightarrow> arts) ?js))
                      - dom (articles d)))"
    unfolding n using sm [THEN conjunct1] by simp
  show "result_totalFetched (fetchArticles remote clock settings d) =
           int (length (concat (map (\<lambda>jc. case fetchJournal remote settings f t jc of
                                            Inl e \<Rightarrow> [] | Inr arts \<Rightarrow> arts) ?js)))"
    unfolding l using sm [THEN conjunct2, THEN conjunct2] by simp
qed

lemma fetchArticles_rejected:
  "rejected (fetchArticles remote clock settings d) =
     (if filter enabled (journals settings) = [] then None
      else saveData remote settings (result_data (fetchArticles remote clock settings d)))"
  by (cases "syncWindow remote clock settings") (simp add: fetchArticles_def Let_def)

lemma example_enabled:
  "filter enabled (journals example_settings) =
     [example_journal ''One'' ''0001-0001'', example_journal ''Two'' ''0002-0002'',
      example_journal ''Three'' ''0003-0003'']"
  by (simp add: example_settings_def example_journal_def)

lemma example_saveData: "saveData example_remote s d = None"
  by (simp add: example_remote_def)

lemma example_run:
  "result_newArticleCount
     (fetchArticles example_remote example_clock example_settings example_data) = 2"
  "result_totalFetched
     (fetchArticles example_remote example_clock example_settings example_data) = 3"
  "rejected (fetchArticles example_remote example_clock example_settings example_data) = None"
  "totalFetched (statistics (result_data
     (fetchArticles example_remote example_clock example_settings example_data))) = 2"
  "byJournal (statistics (result_data
     (fetchArticles example_remote example_clock example_settings example_data))) =
     [''0001-0001'' \<mapsto> \<lparr>fetched = 1, saved = 0, skipped = 0\<rparr>,
      ''0003-0003'' \<mapsto> \<lparr>fetched = 1, saved = 0, skipped = 0\<rparr>]"
  by (simp_all add: fetchArticles_def Let_def example_enabled example_window example_pass
      backfillNew_def example_saveData)

text \<open>
  C7. A journal whose fetch throws is passed over: the pass over the journals is the pass
  over those whose fetch succeeds. The new-article count of a run is the number of
  distinct identifiers, not yet in the collection, among the articles the succeeding
  journals return, and the fetched total is the number of those articles. The promise
  \<^const>\<open>fetchArticles\<close> returns is rejected only when the final write to the store is,
  never by a fetch. On the sample run, where the second of three journals throws, the
  count is \<open>2\<close>, for the new article of the first and that of the third journal, only
  these two journals get a counter, and nothing is rejected.
\<close>

theorem fetchArticles_survives_failed_journal:
  "syncJournals remote settings f t js st =
     syncJournals remote settings f t
       (filter (\<lambda>jc. \<not> isl (fetchJournal remote settings f t jc)) js) st
   \<and> (case syncWindow remote clock settings of
        (from, to) \<Rightarrow>
          result_newArticleCount (fetchArticles remote clock settings d) =
            int (card (doi ` set (concat (map (\<lambda>jc. case fetchJournal remote settings from to jc of
                                                    Inl e \<Rightarrow> [] | Inr arts \<Rightarrow> arts)
                                             (filter enabled (journals settings))))
                       - dom (articles d)))
        \<and> result_totalFetched (fetchArticles remote clock settings d) =
            int (length (concat (map (\<lambda>jc. case fetchJournal remote settings from to jc of
                                             Inl e \<Rightarrow> [] | Inr arts \<Rightarrow> arts)
                                      (filter enabled (journals settings))))))
   \<and> rejected (fetchArticles remote clock settings d) =
       (if filter enabled (journals settings) = [] then None
        else saveData remote settings (result_data (fetchArticles remote clock settings d)))
   \<and> fetchJournal example_remote example_settings f t (example_journal ''Two'' ''0002-0002'')
       = Inl (Error ''request failed'')
   \<and> result_newArticleCount
       (fetchArticles example_remote example_clock example_settings example_data) = 2
   \<and> byJournal (statistics (result_data
       (fetchArticles example_remote example_clock example_settings example_data))) =
       [''0001-0001'' \<mapsto> \<lparr>fetched = 1, saved = 0, skipped = 0\<rparr>,
        ''0003-0003'' \<mapsto> \<lparr>fetched = 1, saved = 0, skipped = 0\<rparr>]
   \<and> rejected (fetchArticles example_remote example_clock example_settings example_data) = None"
proof -
  obtain a b where w: "syncWindow remote clock settings = (a, b)"
    by (cases "syncWindow remote clock settings")
  show ?thesis
    unfolding w prod.case
    using syncJournals_skip_failed [of remote settings f t js st]
      fetchArticles_counts [OF w, of d] fetchArticles_rejected [of remote clock settings d]
      example_fetches(2) [of f t] example_run(1,3,5)
    by blast
qed

end
